theory Spec2Isabelle
  imports Complex_Main "HOL-Library.Multiset"
begin

section \<open>Parallel upload of NGSI-LD documents to Orion-LD\<close>

text \<open>
  A shallow embedding of \<^verbatim>\<open>scripts/parallel_upload_to_orion.py\<close>. Every function of the
  script is a HOL function of the same name. What the script reads from the outside
  world (the files, the broker's answers, the clock) is a record \<open>env\<close>; what it does to
  the outside world is the list of \<open>event\<close>s a function returns next to its value.
\<close>

subsection \<open>Python values\<close>

text \<open>
  The value \<^verbatim>\<open>json.load\<close> returns. Python's \<^verbatim>\<open>None\<close> is \<open>JNull\<close>. A float is
  modelled by the real number it denotes: the script only tests it for zero.
  An object keeps its members in file order.
\<close>

datatype json =
    JNull
  | JBool bool
  | JInt int
  | JFloat real
  | JStr string
  | JArr "json list"
  | JObj "(string \<times> json) list"

text \<open>Python's truth value of such a value (\<^verbatim>\<open>bool(v)\<close>, as tested by \<^verbatim>\<open>if not v\<close>).\<close>

fun truthy :: "json \<Rightarrow> bool" where
  "truthy JNull = False"
| "truthy (JBool b) = b"
| "truthy (JInt i) = (i \<noteq> 0)"
| "truthy (JFloat r) = (r \<noteq> 0)"
| "truthy (JStr s) = (s \<noteq> [])"
| "truthy (JArr xs) = (xs \<noteq> [])"
| "truthy (JObj kvs) = (kvs \<noteq> [])"

text \<open>\<^verbatim>\<open>str(n)\<close> for an integer, as an f-string renders it.\<close>

definition digit_char :: "nat \<Rightarrow> char" where
  "digit_char n = ''0123456789'' ! n"

function show_nat :: "nat \<Rightarrow> string" where
  "show_nat n = (if n < 10 then [digit_char n] else show_nat (n div 10) @ [digit_char (n mod 10)])"
  by pat_completeness auto
termination
  by (relation "measure (\<lambda>n. n)") auto

declare show_nat.simps [simp del]

definition show_int :: "int \<Rightarrow> string" where
  "show_int i = (if i < 0 then CHR ''-'' # show_nat (nat (- i)) else show_nat (nat i))"

subsection \<open>The outside world\<close>

text \<open>
  \<open>file_read\<close>: what \<^verbatim>\<open>open(file_path)\<close> followed by \<^verbatim>\<open>json.load\<close> does: it raises (the
  exception's text is kept), or it returns the parsed value.

  \<open>http_result\<close>: what \<^verbatim>\<open>urllib.request.urlopen(req)\<close> does for a create-request: it
  returns a response with a status, it raises \<^verbatim>\<open>HTTPError\<close> (code, reason, and the body
  that \<^verbatim>\<open>e.read().decode('utf-8')\<close> gives, \<open>None\<close> when that raises), or it raises
  another exception (its text is kept).

  \<open>probe_result\<close>: the same for the request to \<^verbatim>\<open>/version\<close>: a response with a status and
  what \<^verbatim>\<open>json.loads(response.read().decode('utf-8'))\<close> gives (\<open>Inl\<close> the text of the
  exception it raises), or an exception raised by \<^verbatim>\<open>urlopen\<close>.
\<close>

datatype file_read = ReadError string | Content json

datatype http_result =
    Response int
  | HTTPError int string "string option"
  | OtherException string

datatype probe_result =
    ProbeResponse int "string + json"
  | ProbeRaised string

text \<open>
  The broker answers the create-requests of one task through \<open>urlopen_entities\<close>: the
  file the task uploads and the number of the attempt (from 0) give the result.
  \<open>glob_json\<close> is \<^verbatim>\<open>sorted(glob.glob(os.path.join(JSON_DIR, "*.json")))\<close>. \<open>start_time\<close> and
  \<open>end_time\<close> are the two readings of \<^verbatim>\<open>time.time()\<close> in \<^verbatim>\<open>main\<close>.
\<close>

record env =
  open_json :: "string \<Rightarrow> file_read"
  urlopen_entities :: "string \<Rightarrow> int \<Rightarrow> http_result"
  urlopen_version :: probe_result
  glob_json :: "string list"
  start_time :: real
  end_time :: real

text \<open>
  What the script does to the world. \<open>HttpPost u d\<close> is one pass through the \<^verbatim>\<open>try\<close> block
  of \<^verbatim>\<open>upload_entity\<close>, which builds the create-request for the document \<open>d\<close> and hands it to
  \<^verbatim>\<open>urlopen\<close>; \<open>Sleep\<close> is \<^verbatim>\<open>time.sleep(0.5)\<close>. \<open>LogInfoValue t v\<close> is an info line made of the text
  \<open>t\<close> and \<^verbatim>\<open>str(v)\<close>; \<open>LogInfoFloat t x u\<close> is an info line made of \<open>t\<close>, the float \<open>x\<close>
  formatted with \<^verbatim>\<open>.2f\<close>, and \<open>u\<close>.
\<close>

datatype event =
    FileOpen string
  | HttpGet string
  | HttpPost string json
  | Sleep
  | LogInfo string
  | LogError string
  | LogInfoValue string json
  | LogInfoFloat string real string

datatype py_error = ValueError | ZeroDivisionError

subsection \<open>Configuration\<close>

definition ORION_LD_URL :: string where
  "ORION_LD_URL = ''http://localhost:1026''"

definition NGSI_LD_ENTITIES_ENDPOINT :: string where
  "NGSI_LD_ENTITIES_ENDPOINT = ''/ngsi-ld/v1/entities''"

definition JSON_DIR :: string where
  "JSON_DIR = ''../output/json''"

definition MAX_RETRIES :: int where
  "MAX_RETRIES = 2"

definition DEFAULT_MAX_WORKERS :: int where
  "DEFAULT_MAX_WORKERS = 30"

subsection \<open>load_json_file and upload_entity\<close>

definition load_json_file :: "env \<Rightarrow> string \<Rightarrow> event list \<times> json" where
  "load_json_file e file_path =
     (case open_json e file_path of
        Content v \<Rightarrow> ([FileOpen file_path], v)
      | ReadError msg \<Rightarrow>
          ([FileOpen file_path,
            LogError (''Error reading file '' @ file_path @ '': '' @ msg)], JNull))"

definition entities_url :: string where
  "entities_url = ORION_LD_URL @ NGSI_LD_ENTITIES_ENDPOINT"

text \<open>
  The loop \<^verbatim>\<open>for attempt in range(retries)\<close> of \<^verbatim>\<open>upload_entity\<close>, from the attempt
  \<open>attempt\<close> on. \<^verbatim>\<open>continue\<close> is the recursive call; falling out of the loop is the last
  branch.
\<close>

function upload_attempts ::
  "env \<Rightarrow> string \<Rightarrow> json \<Rightarrow> int \<Rightarrow> int \<Rightarrow> event list \<times> (string \<times> bool \<times> string)" where
  "upload_attempts e file_path entity_data attempt retries =
     (if attempt < retries then
        (case urlopen_entities e file_path attempt of
           Response status_code \<Rightarrow>
             if status_code = 201 then
               ([HttpPost entities_url entity_data], (file_path, True, ''Created''))
             else
               ([HttpPost entities_url entity_data],
                (file_path, False, ''Unexpected status code: '' @ show_int status_code))
         | HTTPError code reason body \<Rightarrow>
             if code = 409 then
               ([HttpPost entities_url entity_data], (file_path, True, ''Already exists''))
             else if code \<ge> 500 \<and> attempt < retries - 1 then
               (case upload_attempts e file_path entity_data (attempt + 1) retries of
                  (evs, r) \<Rightarrow> (HttpPost entities_url entity_data # Sleep # evs, r))
             else
               (case body of
                  Some error_body \<Rightarrow>
                    ([HttpPost entities_url entity_data],
                     (file_path, False,
                      ''HTTP error: '' @ show_int code @ '' - '' @ reason
                        @ '', Details: '' @ error_body))
                | None \<Rightarrow>
                    ([HttpPost entities_url entity_data],
                     (file_path, False, ''HTTP error: '' @ show_int code @ '' - '' @ reason)))
         | OtherException msg \<Rightarrow>
             if attempt < retries - 1 then
               (case upload_attempts e file_path entity_data (attempt + 1) retries of
                  (evs, r) \<Rightarrow> (HttpPost entities_url entity_data # Sleep # evs, r))
             else
               ([HttpPost entities_url entity_data],
                (file_path, False, ''Request error: '' @ msg)))
      else ([], (file_path, False, ''Max retries exceeded'')))"
  by pat_completeness auto
termination
  by (relation "measure (\<lambda>(e, file_path, entity_data, attempt, retries). nat (retries - attempt))")
    auto

declare upload_attempts.simps [simp del]

definition upload_entity :: "env \<Rightarrow> string \<Rightarrow> int \<Rightarrow> event list \<times> (string \<times> bool \<times> string)" where
  "upload_entity e file_path retries =
     (case load_json_file e file_path of
        (evs0, entity_data) \<Rightarrow>
          if \<not> truthy entity_data then
            (evs0, (file_path, False, ''Failed to load entity data''))
          else
            (case upload_attempts e file_path entity_data 0 retries of
               (evs, r) \<Rightarrow> (evs0 @ evs, r)))"

subsection \<open>get_json_files\<close>

text \<open>
  Python's slice \<^verbatim>\<open>xs[lo:hi]\<close>: a negative index counts from the end, and every index is
  clamped to the list; \<open>None\<close> is a missing bound.
\<close>

definition slice_index :: "nat \<Rightarrow> int \<Rightarrow> nat" where
  "slice_index n i = (if i < 0 then nat (max 0 (int n + i)) else min n (nat i))"

definition py_slice :: "int option \<Rightarrow> int option \<Rightarrow> 'a list \<Rightarrow> 'a list" where
  "py_slice lo hi xs =
     (let n = length xs;
          a = (case lo of None \<Rightarrow> 0 | Some i \<Rightarrow> slice_index n i);
          b = (case hi of None \<Rightarrow> n | Some j \<Rightarrow> slice_index n j)
      in take (b - a) (drop a xs))"

definition get_json_files :: "env \<Rightarrow> int option \<Rightarrow> int option \<Rightarrow> int option \<Rightarrow> string list" where
  "get_json_files e start_idx end_idx max_files =
     (let all_files = glob_json e in
      if start_idx \<noteq> None \<and> end_idx \<noteq> None then py_slice start_idx end_idx all_files
      else if (case max_files of None \<Rightarrow> False | Some m \<Rightarrow> m \<noteq> 0) then
        py_slice None max_files all_files
      else all_files)"

subsection \<open>parallel_upload\<close>

text \<open>\<^verbatim>\<open>os.path.basename\<close> (POSIX) and \<^verbatim>\<open>str.replace\<close> for a non-empty pattern.\<close>

definition basename :: "string \<Rightarrow> string" where
  "basename p = rev (takeWhile (\<lambda>c. c \<noteq> CHR ''/'') (rev p))"

function str_replace :: "string \<Rightarrow> string \<Rightarrow> string \<Rightarrow> string" where
  "str_replace old new [] = []"
| "str_replace old new (c # cs) =
     (if old \<noteq> [] \<and> take (length old) (c # cs) = old then
        new @ str_replace old new (drop (length old) (c # cs))
      else c # str_replace old new cs)"
  by pat_completeness auto
termination
  by (relation "measure (\<lambda>(old, new, s). length s)") auto

text \<open>
  The counters and the three lists of \<^verbatim>\<open>results\<close> that the loop over the completed
  futures updates.
\<close>

record agg =
  success_count :: int
  already_exists_count :: int
  error_count :: int
  results_success :: "string list"
  results_already_exists :: "string list"
  results_error :: "(string \<times> string) list"

definition agg_init :: agg where
  "agg_init = \<lparr>success_count = 0, already_exists_count = 0, error_count = 0,
     results_success = [], results_already_exists = [], results_error = []\<rparr>"

text \<open>The body of the loop, for one \<^verbatim>\<open>future.result()\<close>.\<close>

definition process_result :: "agg \<Rightarrow> string \<times> bool \<times> string \<Rightarrow> event list \<times> agg" where
  "process_result st r =
     (case r of (file_path, ok, message) \<Rightarrow>
        let entity_id = str_replace ''.json'' [] (basename file_path) in
        if ok then
          if message = ''Created'' then
            (if (success_count st + 1) mod 100 = 0 then
               [LogInfo (''Successfully uploaded '' @ show_int (success_count st + 1)
                  @ '' entities'')]
             else [],
             st\<lparr>success_count := success_count st + 1,
                results_success := results_success st @ [entity_id]\<rparr>)
          else
            ([], st\<lparr>already_exists_count := already_exists_count st + 1,
                   results_already_exists := results_already_exists st @ [entity_id]\<rparr>)
        else
          ([LogError (''Failed to upload '' @ entity_id @ '': '' @ message)],
           st\<lparr>error_count := error_count st + 1,
              results_error := results_error st @ [(entity_id, message)]\<rparr>))"

text \<open>
  The loop over \<^verbatim>\<open>as_completed(future_to_file)\<close>. \<open>completed\<close> lists the files of the
  futures in the order in which they complete; every future runs
  \<^verbatim>\<open>upload_entity(file_path)\<close> with the default \<^verbatim>\<open>retries=MAX_RETRIES\<close>. The events of one
  task are kept together: how the tasks interleave in time is not modelled.
\<close>

fun collect :: "env \<Rightarrow> agg \<Rightarrow> string list \<Rightarrow> event list \<times> agg" where
  "collect e st [] = ([], st)"
| "collect e st (file_path # rest) =
     (case upload_entity e file_path MAX_RETRIES of (evs, r) \<Rightarrow>
        case process_result st r of (logs, st') \<Rightarrow>
          case collect e st' rest of (evs', st'') \<Rightarrow> (evs @ logs @ evs', st''))"

text \<open>
  \<^verbatim>\<open>as_completed\<close> of \<^verbatim>\<open>concurrent.futures\<close> yields every submitted future once, in the order
  in which the futures complete. That order is the scheduler's choice: the numbers of
  \<open>sched\<close> say, step by step, which of the futures still pending completes next (the number
  is taken modulo the count of pending futures; when \<open>sched\<close> runs out, the first pending one
  is taken).
\<close>

function as_completed :: "nat list \<Rightarrow> 'a list \<Rightarrow> 'a list" where
  "as_completed sched [] = []"
| "as_completed sched (x # xs) =
     (let k = (case sched of [] \<Rightarrow> 0 | i # rest \<Rightarrow> i mod length (x # xs)) in
      (x # xs) ! k # as_completed (tl sched) (take k (x # xs) @ drop (Suc k) (x # xs)))"
  by pat_completeness auto
termination
  by (relation "measure (\<lambda>(sched, xs). length xs)") (auto split: list.splits)

record report =
  total :: int
  success :: int
  already_exists :: int
  errors :: int
  error_details :: "(string \<times> string) list"

text \<open>
  \<^verbatim>\<open>ThreadPoolExecutor(max_workers=...)\<close> raises \<^verbatim>\<open>ValueError\<close> when \<open>max_workers \<le> 0\<close>.
\<close>

definition parallel_upload ::
  "env \<Rightarrow> string list \<Rightarrow> int \<Rightarrow> string list \<Rightarrow> event list \<times> (py_error + report)" where
  "parallel_upload e file_list max_workers completed =
     (let total_files = int (length file_list);
          log0 = LogInfo (''Uploading '' @ show_int total_files @ '' JSON files with ''
                   @ show_int max_workers @ '' workers'')
      in if max_workers \<le> 0 then ([log0], Inl ValueError)
         else
           (case collect e agg_init completed of (evs, st) \<Rightarrow>
              (log0 # evs,
               Inr \<lparr>total = total_files, success = success_count st,
                    already_exists = already_exists_count st, errors = error_count st,
                    error_details = results_error st\<rparr>)))"

subsection \<open>check_orion_availability and main\<close>

definition quoted :: "string \<Rightarrow> string" where
  "quoted s = CHR 0x27 # s @ [CHR 0x27]"

fun type_name :: "json \<Rightarrow> string" where
  "type_name JNull = ''NoneType''"
| "type_name (JBool b) = ''bool''"
| "type_name (JInt i) = ''int''"
| "type_name (JFloat r) = ''float''"
| "type_name (JStr s) = ''str''"
| "type_name (JArr xs) = ''list''"
| "type_name (JObj kvs) = ''dict''"

text \<open>\<^verbatim>\<open>data.get(key, default)\<close> on a parsed object: the last member with the key wins.\<close>

definition dict_get :: "(string \<times> json) list \<Rightarrow> string \<Rightarrow> json \<Rightarrow> json" where
  "dict_get kvs k d = (case map_of (rev kvs) k of Some v \<Rightarrow> v | None \<Rightarrow> d)"

definition check_orion_availability :: "env \<Rightarrow> event list \<times> bool" where
  "check_orion_availability e =
     (let get = HttpGet (ORION_LD_URL @ ''/version'') in
      case urlopen_version e of
        ProbeRaised msg \<Rightarrow>
          ([get, LogError (''Error checking Orion-LD availability: '' @ msg)], False)
      | ProbeResponse status body \<Rightarrow>
          if status = 200 then
            (case body of
               Inl msg \<Rightarrow>
                 ([get, LogError (''Error checking Orion-LD availability: '' @ msg)], False)
             | Inr (JObj kvs) \<Rightarrow>
                 ([get, LogInfoValue ''Orion-LD is available. Version: ''
                          (dict_get kvs ''orionld version'' (JStr ''unknown''))], True)
             | Inr v \<Rightarrow>
                 ([get, LogError (''Error checking Orion-LD availability: ''
                          @ quoted (type_name v) @ '' object has no attribute ''
                          @ quoted ''get'')], False))
          else
            ([get, LogError (''Failed to connect to Orion-LD: HTTP '' @ show_int status)],
             False))"

text \<open>The command line after \<^verbatim>\<open>parser.parse_args()\<close>.\<close>

record args =
  arg_workers :: int
  arg_start :: "int option"
  arg_end :: "int option"
  arg_max :: "int option"
  arg_verbose :: bool

text \<open>How the process ends: \<^verbatim>\<open>main\<close> returns, calls \<^verbatim>\<open>sys.exit\<close>, or an exception escapes.\<close>

datatype exit = Done | SysExit int | Raised py_error

text \<open>
  The summary at the end of \<^verbatim>\<open>main\<close> (from \<^verbatim>\<open># Print summary\<close> on). The division
  \<^verbatim>\<open>results['total'] / elapsed_time\<close> of an int by a float raises
  \<^verbatim>\<open>ZeroDivisionError\<close> when the float is zero.
\<close>

definition main_summary :: "report \<Rightarrow> real \<Rightarrow> event list \<times> exit" where
  "main_summary results elapsed_time =
     (let head =
            [LogInfo (CHR 0x0A # ''=== UPLOAD SUMMARY ===''),
             LogInfo (''Total files processed: '' @ show_int (total results)),
             LogInfo (''Successfully created: '' @ show_int (success results)),
             LogInfo (''Already existed: '' @ show_int (already_exists results)),
             LogInfo (''Errors: '' @ show_int (errors results))];
          samples =
            (if errors results > 0 then
               LogInfo ''Sample errors:''
                 # map (\<lambda>(entity_id, error). LogInfo ('' - '' @ entity_id @ '': '' @ error))
                     (take 5 (error_details results))
                 @ (if errors results > 5 then
                      [LogInfo (''  ...and '' @ show_int (errors results - 5)
                         @ '' more errors (see log file)'')]
                    else [])
             else []);
          elapsed = [LogInfoFloat ''Time elapsed: '' elapsed_time '' seconds'']
      in if elapsed_time = 0 then (head @ samples @ elapsed, Raised ZeroDivisionError)
         else
           (head @ samples @ elapsed
              @ [LogInfoFloat ''Average rate: '' (real_of_int (total results) / elapsed_time)
                   '' entities/second'',
                 LogInfo (''====================='' @ [CHR 0x0A])],
            Done))"

text \<open>
  \<^verbatim>\<open>main\<close>. \<open>completed\<close> is the order in which the futures of \<^verbatim>\<open>parallel_upload\<close>
  complete. Setting the log level for \<^verbatim>\<open>--verbose\<close> has no effect that is modelled.
\<close>

definition main :: "env \<Rightarrow> args \<Rightarrow> string list \<Rightarrow> event list \<times> exit" where
  "main e a completed =
     (case check_orion_availability e of (evs0, available) \<Rightarrow>
        if \<not> available then
          (evs0 @ [LogError ''Orion-LD is not available. Please make sure it is running.''],
           SysExit 1)
        else
          (let json_files = get_json_files e (arg_start a) (arg_end a) (arg_max a) in
           if json_files = [] then
             (evs0 @ [LogError (''No JSON files found in '' @ JSON_DIR
                        @ '' with the specified range'')],
              SysExit 1)
           else
             (case parallel_upload e json_files (arg_workers a) completed of
                (evs1, Inl err) \<Rightarrow> (evs0 @ evs1, Raised err)
              | (evs1, Inr results) \<Rightarrow>
                  (case main_summary results (end_time e - start_time e) of
                     (evs2, x) \<Rightarrow> (evs0 @ evs1 @ evs2, x)))))"

subsection \<open>Counting what a run does\<close>

fun is_post :: "event \<Rightarrow> bool" where
  "is_post (HttpPost u d) = True"
| "is_post ev = False"

fun is_open :: "event \<Rightarrow> bool" where
  "is_open (FileOpen p) = True"
| "is_open ev = False"

definition posts :: "event list \<Rightarrow> nat" where
  "posts evs = length (filter is_post evs)"

definition loads :: "event list \<Rightarrow> nat" where
  "loads evs = length (filter is_open evs)"

definition sleeps :: "event list \<Rightarrow> nat" where
  "sleeps evs = length (filter (\<lambda>ev. ev = Sleep) evs)"

text \<open>
  The three outcomes of a task, as the loop of \<^verbatim>\<open>parallel_upload\<close> tells them apart from
  the triple that \<^verbatim>\<open>upload_entity\<close> returns.
\<close>

definition is_created :: "string \<times> bool \<times> string \<Rightarrow> bool" where
  "is_created r = (fst (snd r) \<and> snd (snd r) = ''Created'')"

definition is_already_exists :: "string \<times> bool \<times> string \<Rightarrow> bool" where
  "is_already_exists r = (fst (snd r) \<and> snd (snd r) \<noteq> ''Created'')"

definition is_failed :: "string \<times> bool \<times> string \<Rightarrow> bool" where
  "is_failed r = (\<not> fst (snd r))"

text \<open>The outcome of the task that \<^verbatim>\<open>parallel_upload\<close> submits for a file.\<close>

definition task_outcome :: "env \<Rightarrow> string \<Rightarrow> string \<times> bool \<times> string" where
  "task_outcome e file_path = snd (upload_entity e file_path MAX_RETRIES)"

subsection \<open>Example worlds\<close>

text \<open>
  A document store and a broker for the examples: \<open>A.json\<close> is created, \<open>B.json\<close> exists
  already, \<open>C.json\<close> meets a broker that always answers 503, \<open>D.json\<close> is rejected with
  400, \<open>E.json\<close> gets the status 204; \<open>bad.json\<close> is not valid JSON and \<open>empty.json\<close> holds
  an empty object.
\<close>

definition demo_open :: "string \<Rightarrow> file_read" where
  "demo_open p =
     (if p = ''bad.json'' then ReadError ''Expecting value: line 1 column 1 (char 0)''
      else if p = ''empty.json'' then Content (JObj [])
      else Content (JObj [(''id'', JStr p)]))"

definition demo_sink :: "string \<Rightarrow> int \<Rightarrow> http_result" where
  "demo_sink p k =
     (if p = ''A.json'' then Response 201
      else if p = ''B.json'' then HTTPError 409 ''Conflict'' (Some ''Already Exists'')
      else if p = ''C.json'' then HTTPError 503 ''Service Unavailable'' (Some ''busy'')
      else if p = ''D.json'' then HTTPError 400 ''Bad Request'' None
      else Response 204)"

definition demo_env :: env where
  "demo_env =
     \<lparr>open_json = demo_open, urlopen_entities = demo_sink,
      urlopen_version = ProbeResponse 200 (Inr (JObj [(''orionld version'', JStr ''1.4.0'')])),
      glob_json = [''A.json'', ''B.json'', ''C.json''],
      start_time = 100, end_time = 103\<rparr>"

definition demo_args :: args where
  "demo_args = \<lparr>arg_workers = DEFAULT_MAX_WORKERS, arg_start = None, arg_end = None,
     arg_max = None, arg_verbose = False\<rparr>"

text \<open>The same world with the broker down.\<close>

definition down_env :: env where
  "down_env = demo_env\<lparr>urlopen_version := ProbeRaised ''<urlopen error [Errno 111] Connection refused>''\<rparr>"

text \<open>
  A store with the single file \<open>bad.json\<close>, where the two readings of the clock are equal.
\<close>

definition quick_env :: env where
  "quick_env = demo_env\<lparr>glob_json := [''bad.json''], start_time := 100, end_time := 100\<rparr>"

text \<open>
  A flaky broker: it answers the first request of a task with 500 and every later one
  with the status 204.
\<close>

definition flaky_sink :: "string \<Rightarrow> int \<Rightarrow> http_result" where
  "flaky_sink p k =
     (if k = 0 then HTTPError 500 ''Internal Server Error'' None else Response 204)"

definition flaky_env :: env where
  "flaky_env = demo_env\<lparr>urlopen_entities := flaky_sink\<rparr>"

text \<open>A store in which every file parses to the value \<open>v\<close>.\<close>

definition literal_store :: "json \<Rightarrow> string \<Rightarrow> file_read" where
  "literal_store v p = Content v"

section \<open>Properties\<close>

subsection \<open>One attempt of the loop\<close>


lemma upload_attempts_rejected:
  assumes "attempt < retries" "urlopen_entities e p attempt = HTTPError code reason body"
    "code \<noteq> 409" "code < 500"
  shows "upload_attempts e p d attempt retries =
    ([HttpPost entities_url d], (p, False, ''HTTP error: '' @ show_int code @ '' - '' @ reason
       @ (case body of Some b \<Rightarrow> '', Details: '' @ b | None \<Rightarrow> [])))"
  using assms by (subst upload_attempts.simps) (simp split: option.splits)

lemma upload_attempts_response:
  assumes "attempt < retries" "urlopen_entities e p attempt = Response s"
  shows "upload_attempts e p d attempt retries =
    ([HttpPost entities_url d],
     (p, s = 201, if s = 201 then ''Created'' else ''Unexpected status code: '' @ show_int s))"
  using assms by (subst upload_attempts.simps) simp

lemma upload_attempts_last_server_error:
  assumes "attempt < retries" "\<not> attempt < retries - 1"
    "urlopen_entities e p attempt = HTTPError code reason body" "500 \<le> code"
  shows "upload_attempts e p d attempt retries =
    ([HttpPost entities_url d], (p, False, ''HTTP error: '' @ show_int code @ '' - '' @ reason
       @ (case body of Some b \<Rightarrow> '', Details: '' @ b | None \<Rightarrow> [])))"
  using assms by (subst upload_attempts.simps) (simp split: option.splits)

lemma upload_attempts_retry_server_error:
  assumes "attempt < retries - 1"
    "urlopen_entities e p attempt = HTTPError code reason body" "500 \<le> code"
  shows "upload_attempts e p d attempt retries =
    (HttpPost entities_url d # Sleep # fst (upload_attempts e p d (attempt + 1) retries),
     snd (upload_attempts e p d (attempt + 1) retries))"
  using assms by (subst upload_attempts.simps) (simp split: prod.splits)

subsection \<open>The whole loop\<close>

text \<open>
  When every attempt from \<open>attempt\<close> on meets a server error, the loop posts, sleeps and
  goes on until the last attempt, whose error it reports.
\<close>

lemma server_errors_exhaust:
  assumes "\<forall>k. attempt \<le> k \<and> k < retries \<longrightarrow>
             (\<exists>c r b. urlopen_entities e p k = HTTPError c r b \<and> 500 \<le> c)"
    and "attempt < retries"
    and "urlopen_entities e p (retries - 1) = HTTPError code reason body"
    and "n = nat (retries - 1 - attempt)"
  shows "upload_attempts e p d attempt retries =
    (concat (replicate n [HttpPost entities_url d, Sleep]) @ [HttpPost entities_url d],
     (p, False, ''HTTP error: '' @ show_int code @ '' - '' @ reason
       @ (case body of Some b \<Rightarrow> '', Details: '' @ b | None \<Rightarrow> [])))"
  using assms
proof (induction n arbitrary: attempt)
  case 0
  then have last: "attempt = retries - 1" by simp
  from "0.prems"(1,2) obtain c r b where
    h: "urlopen_entities e p attempt = HTTPError c r b" "500 \<le> c" by blast
  with "0.prems"(3) last have "c = code" "r = reason" "b = body" by simp_all
  with h last show ?case
    using upload_attempts_last_server_error [of attempt retries e p code reason body d]
    by simp
next
  case (Suc n)
  then have lt: "attempt < retries - 1" by simp
  from Suc.prems(1,2) obtain c r b where
    h: "urlopen_entities e p attempt = HTTPError c r b" "500 \<le> c" by blast
  have "upload_attempts e p d (attempt + 1) retries =
    (concat (replicate n [HttpPost entities_url d, Sleep]) @ [HttpPost entities_url d],
     (p, False, ''HTTP error: '' @ show_int code @ '' - '' @ reason
       @ (case body of Some b \<Rightarrow> '', Details: '' @ b | None \<Rightarrow> [])))"
  proof (rule Suc.IH)
    show "\<forall>k. attempt + 1 \<le> k \<and> k < retries \<longrightarrow>
             (\<exists>c r b. urlopen_entities e p k = HTTPError c r b \<and> 500 \<le> c)"
      using Suc.prems(1) by simp
    show "attempt + 1 < retries" using lt by simp
    show "urlopen_entities e p (retries - 1) = HTTPError code reason body"
      by (rule Suc.prems(3))
    show "n = nat (retries - 1 - (attempt + 1))" using Suc.prems(4) by simp
  qed
  then show ?case
    using upload_attempts_retry_server_error [OF lt h, of d] by simp
qed

text \<open>The loop returns the message \<open>Created\<close> only after a response with status 201.\<close>

lemma created_only_201:
  "upload_attempts e p d attempt retries = (evs, (fp, True, ''Created'')) \<Longrightarrow>
   \<exists>k. attempt \<le> k \<and> k < retries \<and> urlopen_entities e p k = Response 201"
proof (induction e p d attempt retries arbitrary: evs rule: upload_attempts.induct)
  case (1 e file_path entity_data attempt retries)
  show ?case
  proof (cases "urlopen_entities e file_path attempt")
    case (Response s)
    with "1.prems" show ?thesis
      by (subst (asm) upload_attempts.simps) (auto split: if_splits)
  next
    case (HTTPError code reason body)
    show ?thesis
    proof (cases "code \<noteq> 409 \<and> 500 \<le> code \<and> attempt < retries - 1")
      case True
      with "1.prems" HTTPError obtain evs' where
        "upload_attempts e file_path entity_data (attempt + 1) retries =
           (evs', (fp, True, ''Created''))"
        by (subst (asm) upload_attempts.simps) (auto split: if_splits prod.splits)
      with "1.IH"(1)[OF _ HTTPError] True obtain k where
        "attempt + 1 \<le> k" "k < retries" "urlopen_entities e file_path k = Response 201"
        by auto
      then have "attempt \<le> k \<and> k < retries \<and> urlopen_entities e file_path k = Response 201"
        by simp
      then show ?thesis by blast
    next
      case False
      with "1.prems" HTTPError show ?thesis
        by (subst (asm) upload_attempts.simps) (auto split: if_splits option.splits)
    qed
  next
    case (OtherException msg)
    show ?thesis
    proof (cases "attempt < retries - 1")
      case True
      with "1.prems" OtherException obtain evs' where
        "upload_attempts e file_path entity_data (attempt + 1) retries =
           (evs', (fp, True, ''Created''))"
        by (subst (asm) upload_attempts.simps) (auto split: if_splits prod.splits)
      with "1.IH"(2)[OF _ OtherException] True obtain k where
        "attempt + 1 \<le> k" "k < retries" "urlopen_entities e file_path k = Response 201"
        by auto
      then have "attempt \<le> k \<and> k < retries \<and> urlopen_entities e file_path k = Response 201"
        by simp
      then show ?thesis by blast
    next
      case False
      with "1.prems" OtherException show ?thesis
        by (subst (asm) upload_attempts.simps) (auto split: if_splits)
    qed
  qed
qed

text \<open>The loop never opens a file.\<close>

lemma upload_attempts_no_open:
  "filter is_open (fst (upload_attempts e p d attempt retries)) = []"
proof (induction e p d attempt retries rule: upload_attempts.induct)
  case (1 e file_path entity_data attempt retries)
  show ?case
    using "1.IH"
    by (subst upload_attempts.simps)
       (auto split: http_result.splits option.splits prod.splits)
qed

subsection \<open>The tallies\<close>

lemma process_result_failed:
  "snd (process_result st (p, False, m)) =
     st\<lparr>error_count := error_count st + 1,
        results_error := results_error st @ [(str_replace ''.json'' [] (basename p), m)]\<rparr>"
  by (simp add: process_result_def Let_def)


lemma check_orion_availability_events:
  "posts (fst (check_orion_availability e)) = 0 \<and> loads (fst (check_orion_availability e)) = 0"
  by (simp add: check_orion_availability_def posts_def loads_def Let_def
      split: probe_result.splits sum.splits json.splits)

subsection \<open>The order of completion\<close>

text \<open>Whatever the scheduler chooses, every submitted future is yielded exactly once.\<close>

lemma mset_as_completed: "mset (as_completed sched xs) = mset xs"
proof (induction sched xs rule: as_completed.induct)
  case (1 sched)
  then show ?case by simp
next
  case (2 sched x xs)
  define k where "k = (case sched of [] \<Rightarrow> 0 | i # rest \<Rightarrow> i mod length (x # xs))"
  have lt: "k < length (x # xs)"
    by (simp add: k_def split: list.splits)
  have ih: "mset (as_completed (tl sched) (take k (x # xs) @ drop (Suc k) (x # xs)))
      = mset (take k (x # xs) @ drop (Suc k) (x # xs))"
    using "2.IH" [of k] by (simp add: k_def)
  have "mset (x # xs) = mset (take k (x # xs) @ (x # xs) ! k # drop (Suc k) (x # xs))"
    using id_take_nth_drop [OF lt] by simp
  then have "mset (x # xs)
      = add_mset ((x # xs) ! k) (mset (take k (x # xs) @ drop (Suc k) (x # xs)))"
    by simp
  moreover have "as_completed sched (x # xs) =
      (x # xs) ! k # as_completed (tl sched) (take k (x # xs) @ drop (Suc k) (x # xs))"
    by (simp add: k_def Let_def)
  ultimately show ?case using ih by simp
qed

text \<open>And every order of the submitted futures is the choice of some scheduler.\<close>

lemma as_completed_any_order:
  "mset ys = mset xs \<Longrightarrow> \<exists>sched. as_completed sched xs = ys"
proof (induction ys arbitrary: xs)
  case Nil
  then show ?case by simp
next
  case (Cons y ys)
  then have "y \<in> set xs" by (metis list.set_intros(1) set_mset_mset)
  then obtain k where k: "k < length xs" "xs ! k = y" by (auto simp: in_set_conv_nth)
  then obtain x xs' where xs: "xs = x # xs'" by (cases xs) auto
  have split: "xs = take k xs @ y # drop (Suc k) xs"
    using id_take_nth_drop [OF k(1)] k(2) by simp
  have "mset xs = add_mset y (mset (take k xs @ drop (Suc k) xs))"
    by (subst split) simp
  with Cons.prems have "mset ys = mset (take k xs @ drop (Suc k) xs)" by simp
  from Cons.IH [OF this] obtain sched where
    s: "as_completed sched (take k xs @ drop (Suc k) xs) = ys" by blast
  have "as_completed (k # sched) xs = y # ys"
    using k s by (simp add: xs Let_def)
  then show ?case by blast
qed

lemma length_filter_mset_cong:
  "mset xs = mset ys \<Longrightarrow> length (filter P xs) = length (filter P ys)"
  by (metis mset_filter size_mset)

lemma sum_list_map_mset_cong:
  fixes f :: "'a \<Rightarrow> nat"
  shows "mset xs = mset ys \<Longrightarrow> sum_list (map f xs) = sum_list (map f ys)"
  by (metis mset_map sum_mset_sum_list)

subsection \<open>The events of one task\<close>

lemma upload_attempts_retry_exception:
  assumes "attempt < retries - 1" "urlopen_entities e p attempt = OtherException msg"
  shows "upload_attempts e p d attempt retries =
    (HttpPost entities_url d # Sleep # fst (upload_attempts e p d (attempt + 1) retries),
     snd (upload_attempts e p d (attempt + 1) retries))"
  using assms by (subst upload_attempts.simps) (simp split: prod.splits)

text \<open>The loop only posts the document it was given, and sleeps.\<close>

lemma upload_attempts_events:
  "set (fst (upload_attempts e p d attempt retries)) \<subseteq> {HttpPost entities_url d, Sleep}"
proof (induction e p d attempt retries rule: upload_attempts.induct)
  case (1 e file_path entity_data attempt retries)
  show ?case
    using "1.IH"
    by (subst upload_attempts.simps)
       (auto split: http_result.splits option.splits prod.splits)
qed

text \<open>The loop returns the path it was given.\<close>

lemma upload_attempts_path:
  "fst (snd (upload_attempts e p d attempt retries)) = p"
proof (induction e p d attempt retries rule: upload_attempts.induct)
  case (1 e file_path entity_data attempt retries)
  show ?case
    using "1.IH"
    by (subst upload_attempts.simps)
       (auto split: http_result.splits option.splits prod.splits)
qed

lemma upload_entity_path: "fst (snd (upload_entity e p retries)) = p"
proof -
  obtain evs0 d where l: "load_json_file e p = (evs0, d)"
    by (cases "load_json_file e p")
  obtain evs r where ua: "upload_attempts e p d 0 retries = (evs, r)"
    by (cases "upload_attempts e p d 0 retries")
  have "fst r = p"
    using upload_attempts_path [of e p d 0 retries] ua by simp
  then show ?thesis
    by (simp add: upload_entity_def l ua)
qed

text \<open>
  A task opens its file first and never again; every create-request comes after that
  and carries the value that \<^verbatim>\<open>load_json_file\<close> returned.
\<close>

lemma upload_entity_events:
  "\<exists>rest. fst (upload_entity e p retries) = FileOpen p # rest
     \<and> filter is_open rest = []
     \<and> set (filter is_post rest) \<subseteq> {HttpPost entities_url (snd (load_json_file e p))}"
proof -
  obtain evs0 d where l: "load_json_file e p = (evs0, d)"
    by (cases "load_json_file e p")
  obtain evs r where ua: "upload_attempts e p d 0 retries = (evs, r)"
    by (cases "upload_attempts e p d 0 retries")
  obtain logs where h: "evs0 = FileOpen p # logs" "filter is_open logs = []"
    "filter is_post logs = []"
    using l by (auto simp: load_json_file_def split: file_read.splits)
  have sub: "set evs \<subseteq> {HttpPost entities_url d, Sleep}"
    using upload_attempts_events [of e p d 0 retries] ua by simp
  have no: "filter is_open evs = []"
    using upload_attempts_no_open [of e p d 0 retries] ua by simp
  have po: "set (filter is_post evs) \<subseteq> {HttpPost entities_url d}"
    using sub by auto
  show ?thesis
  proof (cases "truthy d")
    case True
    then have "fst (upload_entity e p retries) = FileOpen p # (logs @ evs)"
      by (simp add: upload_entity_def l ua h)
    moreover have "filter is_open (logs @ evs) = []" using h no by simp
    moreover have "set (filter is_post (logs @ evs)) \<subseteq> {HttpPost entities_url d}"
      using h po by simp
    ultimately show ?thesis using l by auto
  next
    case False
    then have "fst (upload_entity e p retries) = FileOpen p # logs"
      by (simp add: upload_entity_def l h)
    moreover have "set (filter is_post logs) \<subseteq> {HttpPost entities_url d}"
      using h(3) by simp
    ultimately show ?thesis using h(2) l by simp
  qed
qed

lemma upload_entity_loads: "loads (fst (upload_entity e p retries)) = 1"
  using upload_entity_events [of e p retries] by (auto simp: loads_def)

text \<open>
  While the attempts meet server errors or other exceptions and the budget is not used
  up, the loop posts, sleeps and goes on.
\<close>

lemma upload_attempts_retry_prefix:
  assumes "\<forall>j. attempt \<le> j \<and> j < k \<longrightarrow>
             (\<exists>c r b. urlopen_entities e p j = HTTPError c r b \<and> 500 \<le> c)
             \<or> (\<exists>m. urlopen_entities e p j = OtherException m)"
    and "attempt \<le> k" and "k < retries" and "n = nat (k - attempt)"
  shows "upload_attempts e p d attempt retries =
    (concat (replicate n [HttpPost entities_url d, Sleep]) @ fst (upload_attempts e p d k retries),
     snd (upload_attempts e p d k retries))"
  using assms
proof (induction n arbitrary: attempt)
  case 0
  then have "attempt = k" by simp
  then show ?case by simp
next
  case (Suc n)
  then have lt: "attempt < k" by simp
  with Suc.prems(3) have lt': "attempt < retries - 1" by simp
  have ih: "upload_attempts e p d (attempt + 1) retries =
    (concat (replicate n [HttpPost entities_url d, Sleep]) @ fst (upload_attempts e p d k retries),
     snd (upload_attempts e p d k retries))"
  proof (rule Suc.IH)
    show "\<forall>j. attempt + 1 \<le> j \<and> j < k \<longrightarrow>
             (\<exists>c r b. urlopen_entities e p j = HTTPError c r b \<and> 500 \<le> c)
             \<or> (\<exists>m. urlopen_entities e p j = OtherException m)"
      using Suc.prems(1) by simp
    show "attempt + 1 \<le> k" using lt by simp
    show "k < retries" by (rule Suc.prems(3))
    show "n = nat (k - (attempt + 1))" using Suc.prems(4) by simp
  qed
  from Suc.prems(1) lt consider
    (http) c r b where "urlopen_entities e p attempt = HTTPError c r b" "500 \<le> c"
    | (other) m where "urlopen_entities e p attempt = OtherException m"
    by blast
  then show ?case
  proof cases
    case http
    show ?thesis
      using upload_attempts_retry_server_error [OF lt' http, of d] ih by simp
  next
    case other
    show ?thesis
      using upload_attempts_retry_exception [OF lt' other, of d] ih by simp
  qed
qed

subsection \<open>The tallies, outcome by outcome\<close>

lemma process_result_tally:
  assumes "process_result st r = (logs, st')"
  shows "success_count st' = success_count st + (if is_created r then 1 else 0)"
    and "already_exists_count st' = already_exists_count st + (if is_already_exists r then 1 else 0)"
    and "error_count st' = error_count st + (if is_failed r then 1 else 0)"
    and "results_error st' = results_error st
           @ (if is_failed r then [(str_replace ''.json'' [] (basename (fst r)), snd (snd r))]
              else [])"
    and "filter is_post logs = []" and "filter is_open logs = []"
  using assms
  by (auto simp: process_result_def Let_def is_created_def is_already_exists_def is_failed_def
      split: prod.splits if_splits)

lemma collect_tally:
  assumes "collect e st completed = (evs, st')"
  shows "success_count st' = success_count st
           + int (length (filter (\<lambda>p. is_created (task_outcome e p)) completed))
     \<and> already_exists_count st' = already_exists_count st
           + int (length (filter (\<lambda>p. is_already_exists (task_outcome e p)) completed))
     \<and> error_count st' = error_count st
           + int (length (filter (\<lambda>p. is_failed (task_outcome e p)) completed))
     \<and> results_error st' = results_error st
           @ map (\<lambda>p. (str_replace ''.json'' [] (basename p), snd (snd (task_outcome e p))))
               (filter (\<lambda>p. is_failed (task_outcome e p)) completed)
     \<and> posts evs = sum_list (map (\<lambda>p. posts (fst (upload_entity e p MAX_RETRIES))) completed)
     \<and> loads evs = length completed"
  using assms
proof (induction completed arbitrary: st evs st')
  case Nil
  then show ?case by (simp add: posts_def loads_def)
next
  case (Cons file_path rest)
  obtain evs1 r where u: "upload_entity e file_path MAX_RETRIES = (evs1, r)"
    by (cases "upload_entity e file_path MAX_RETRIES")
  obtain logs st1 where p: "process_result st r = (logs, st1)"
    by (cases "process_result st r")
  obtain evs2 st2 where c: "collect e st1 rest = (evs2, st2)"
    by (cases "collect e st1 rest")
  from Cons.prems u p c have eq: "st' = st2" "evs = evs1 @ logs @ evs2" by simp_all
  have r: "task_outcome e file_path = r" "fst r = file_path"
    using u upload_entity_path [of e file_path MAX_RETRIES] by (simp_all add: task_outcome_def)
  have l1: "loads evs1 = 1"
    using upload_entity_loads [of e file_path MAX_RETRIES] u by simp
  note t = process_result_tally [OF p]
  note ih = Cons.IH [OF c]
  have cnt: "posts evs = posts evs1 + posts evs2" "loads evs = 1 + loads evs2"
    using eq(2) t(5,6) l1 by (simp_all add: posts_def loads_def)
  show ?case
    using ih t(1-4) r u cnt by (simp add: eq(1))
qed

lemma outcome_partition:
  "length (filter (\<lambda>p. is_created (f p)) xs)
     + length (filter (\<lambda>p. is_already_exists (f p)) xs)
     + length (filter (\<lambda>p. is_failed (f p)) xs) = length xs"
  by (induction xs) (auto simp: is_created_def is_already_exists_def is_failed_def)

subsection \<open>Evaluating the example worlds\<close>

lemmas demo_defs =
  demo_env_def demo_open_def demo_sink_def demo_args_def down_env_def quick_env_def
  MAX_RETRIES_def DEFAULT_MAX_WORKERS_def

lemmas run_defs =
  upload_entity_def load_json_file_def upload_attempts.simps posts_def loads_def sleeps_def
  show_int_def show_nat.simps digit_char_def

section \<open>The claims\<close>

subsection \<open>C1: the report counts every task once\<close>

text \<open>
  C1. \<^verbatim>\<open>parallel_upload\<close> is run on the list \<open>file_list\<close> of size N with a positive number of
  workers; the futures complete in the order \<open>as_completed sched file_list\<close>, for any
  scheduler \<open>sched\<close>. That order is a permutation of \<open>file_list\<close>: every task yields one
  outcome. \<^verbatim>\<open>parallel_upload\<close> returns a report (it does not raise) in which \<open>total\<close> is N,
  \<open>success\<close> is the number of tasks of the list whose outcome is created, \<open>already_exists\<close>
  the number of those that exist already and \<open>errors\<close> the number of those that failed, so
  that \<open>success + already_exists + errors = N\<close>. The error details are the identifiers and
  reasons of the failed tasks, in the order of completion. The run issues the
  create-requests of every task of the list and opens one file per task. For the empty
  list all counts are zero.
\<close>

theorem parallel_upload_counts_sum:
  assumes "0 < max_workers"
  shows "\<exists>evs rep.
       parallel_upload e file_list max_workers (as_completed sched file_list) = (evs, Inr rep)
     \<and> mset (as_completed sched file_list) = mset file_list
     \<and> total rep = int (length file_list)
     \<and> success rep = int (length (filter (\<lambda>p. is_created (task_outcome e p)) file_list))
     \<and> already_exists rep
         = int (length (filter (\<lambda>p. is_already_exists (task_outcome e p)) file_list))
     \<and> errors rep = int (length (filter (\<lambda>p. is_failed (task_outcome e p)) file_list))
     \<and> success rep + already_exists rep + errors rep = int (length file_list)
     \<and> error_details rep
         = map (\<lambda>p. (str_replace ''.json'' [] (basename p), snd (snd (task_outcome e p))))
             (filter (\<lambda>p. is_failed (task_outcome e p)) (as_completed sched file_list))
     \<and> posts evs = sum_list (map (\<lambda>p. posts (fst (upload_entity e p MAX_RETRIES))) file_list)
     \<and> loads evs = length file_list
     \<and> (file_list = [] \<longrightarrow>
          success rep = 0 \<and> already_exists rep = 0 \<and> errors rep = 0 \<and> error_details rep = [])"
proof -
  define completed where "completed = as_completed sched file_list"
  have perm: "mset completed = mset file_list"
    by (simp add: completed_def mset_as_completed)
  obtain evs st where c: "collect e agg_init completed = (evs, st)"
    by (cases "collect e agg_init completed")
  have len: "length completed = length file_list"
    using perm by (rule mset_eq_length)
  from collect_tally [OF c]
  have s: "success_count st = int (length (filter (\<lambda>p. is_created (task_outcome e p)) completed))"
    and a: "already_exists_count st
        = int (length (filter (\<lambda>p. is_already_exists (task_outcome e p)) completed))"
    and f: "error_count st = int (length (filter (\<lambda>p. is_failed (task_outcome e p)) completed))"
    and d: "results_error st
        = map (\<lambda>p. (str_replace ''.json'' [] (basename p), snd (snd (task_outcome e p))))
            (filter (\<lambda>p. is_failed (task_outcome e p)) completed)"
    and po: "posts evs = sum_list (map (\<lambda>p. posts (fst (upload_entity e p MAX_RETRIES))) completed)"
    and lo: "loads evs = length completed"
    by (simp_all add: agg_init_def)
  have s': "success_count st = int (length (filter (\<lambda>p. is_created (task_outcome e p)) file_list))"
    using s length_filter_mset_cong [OF perm] by simp
  have a': "already_exists_count st
        = int (length (filter (\<lambda>p. is_already_exists (task_outcome e p)) file_list))"
    using a length_filter_mset_cong [OF perm] by simp
  have f': "error_count st = int (length (filter (\<lambda>p. is_failed (task_outcome e p)) file_list))"
    using f length_filter_mset_cong [OF perm] by simp
  have po': "posts evs = sum_list (map (\<lambda>p. posts (fst (upload_entity e p MAX_RETRIES))) file_list)"
    using po sum_list_map_mset_cong [OF perm] by simp
  have sum: "success_count st + already_exists_count st + error_count st = int (length file_list)"
    using s' a' f' outcome_partition [of "task_outcome e" file_list] by simp
  have empty: "success_count st = 0 \<and> already_exists_count st = 0
      \<and> error_count st = 0 \<and> results_error st = []" if "file_list = []"
    using that s' a' f' d len by (simp add: completed_def)
  have run: "parallel_upload e file_list max_workers completed =
      (LogInfo (''Uploading '' @ show_int (int (length file_list)) @ '' JSON files with ''
                   @ show_int max_workers @ '' workers'') # evs,
       Inr \<lparr>total = int (length file_list), success = success_count st,
            already_exists = already_exists_count st, errors = error_count st,
            error_details = results_error st\<rparr>)"
    using assms c by (simp add: parallel_upload_def Let_def)
  have po'': "posts (LogInfo (''Uploading '' @ show_int (int (length file_list))
      @ '' JSON files with '' @ show_int max_workers @ '' workers'') # evs)
      = sum_list (map (\<lambda>p. posts (fst (upload_entity e p MAX_RETRIES))) file_list)"
    using po' by (simp add: posts_def)
  have lo'': "loads (LogInfo (''Uploading '' @ show_int (int (length file_list))
      @ '' JSON files with '' @ show_int max_workers @ '' workers'') # evs)
      = length file_list"
    using lo len by (simp add: loads_def)
  show ?thesis
    unfolding completed_def [symmetric]
    using run perm s' a' f' sum d po'' lo'' empty by simp
qed

text \<open>
  C1 on the example of the specification: \<open>A\<close> is created, \<open>B\<close> exists, \<open>C\<close> always meets
  503; three workers; \<open>C\<close> completes first. And on the empty list.
\<close>

theorem parallel_upload_counts_sum_witness:
  "(0::int) < 3
   \<and> as_completed [2, 0, 0] [''A.json'', ''B.json'', ''C.json'']
       = [''C.json'', ''A.json'', ''B.json'']
   \<and> (\<exists>evs rep. parallel_upload demo_env [''A.json'', ''B.json'', ''C.json''] 3
         (as_completed [2, 0, 0] [''A.json'', ''B.json'', ''C.json'']) = (evs, Inr rep)
        \<and> total rep = 3 \<and> success rep = 1 \<and> already_exists rep = 1 \<and> errors rep = 1
        \<and> error_details rep
            = [(''C'', ''HTTP error: 503 - Service Unavailable, Details: busy'')]
        \<and> posts evs = 4 \<and> loads evs = 3)
   \<and> (\<exists>evs rep. parallel_upload demo_env [] 3 (as_completed [2, 0, 0] []) = (evs, Inr rep)
        \<and> total rep = 0 \<and> success rep = 0 \<and> already_exists rep = 0 \<and> errors rep = 0)"
proof -
  have w: "(0::int) < 3" by simp
  have o: "as_completed [2, 0, 0] [''A.json'', ''B.json'', ''C.json'']
       = [''C.json'', ''A.json'', ''B.json'']"
    by (simp add: Let_def)
  have ta: "task_outcome demo_env ''A.json'' = (''A.json'', True, ''Created'')"
    and tb: "task_outcome demo_env ''B.json'' = (''B.json'', True, ''Already exists'')"
    and tc: "task_outcome demo_env ''C.json''
       = (''C.json'', False, ''HTTP error: 503 - Service Unavailable, Details: busy'')"
    by (simp_all add: task_outcome_def demo_defs run_defs)
  have pa: "posts (fst (upload_entity demo_env ''A.json'' MAX_RETRIES)) = 1"
    and pb: "posts (fst (upload_entity demo_env ''B.json'' MAX_RETRIES)) = 1"
    and pc: "posts (fst (upload_entity demo_env ''C.json'' MAX_RETRIES)) = 2"
    by (simp_all add: demo_defs run_defs)
  have id: "str_replace ''.json'' [] (basename ''C.json'') = ''C''"
    by (simp add: basename_def)
  from parallel_upload_counts_sum [OF w, of demo_env "[''A.json'', ''B.json'', ''C.json'']"
      "[2, 0, 0]"]
  have a: "\<exists>evs rep. parallel_upload demo_env [''A.json'', ''B.json'', ''C.json''] 3
         (as_completed [2, 0, 0] [''A.json'', ''B.json'', ''C.json'']) = (evs, Inr rep)
        \<and> total rep = 3 \<and> success rep = 1 \<and> already_exists rep = 1 \<and> errors rep = 1
        \<and> error_details rep
            = [(''C'', ''HTTP error: 503 - Service Unavailable, Details: busy'')]
        \<and> posts evs = 4 \<and> loads evs = 3"
    by (simp add: o ta tb tc pa pb pc id is_created_def is_already_exists_def is_failed_def)
       (auto simp: eval_nat_numeral)
  from parallel_upload_counts_sum [OF w, of demo_env "[]" "[2, 0, 0]"]
  have b: "\<exists>evs rep. parallel_upload demo_env [] 3 (as_completed [2, 0, 0] []) = (evs, Inr rep)
        \<and> total rep = 0 \<and> success rep = 0 \<and> already_exists rep = 0 \<and> errors rep = 0"
    by auto
  from w o a b show ?thesis by blast
qed

subsection \<open>C2: a server error on every attempt\<close>

text \<open>
  C2 as stated fails. In the example world the broker answers 503 to every request for
  \<open>C.json\<close>. With the default budget of 2 the request is attempted twice and the task
  fails, but the reason is the HTTP error of the last attempt, not
  \<open>Max retries exceeded\<close>.
\<close>

theorem server_error_reason_counterexample:
  "posts (fst (upload_entity demo_env ''C.json'' 2)) = 2
   \<and> snd (upload_entity demo_env ''C.json'' 2)
       = (''C.json'', False, ''HTTP error: 503 - Service Unavailable, Details: busy'')
   \<and> snd (snd (snd (upload_entity demo_env ''C.json'' 2))) \<noteq> ''Max retries exceeded''"
  by (simp add: demo_defs run_defs entities_url_def)

text \<open>
  C2, amended. The document loads, the budget \<open>R\<close> is at least 1, and every attempt raises
  an \<^verbatim>\<open>HTTPError\<close> with a code of 500 or more. Then the request is attempted exactly \<open>R\<close>
  times, with \<open>R - 1\<close> pauses, and the outcome is a failure whose reason is
  \<open>HTTP error: <code> - <reason>\<close> (with \<open>, Details: <body>\<close> when the body can be read) of
  the last attempt; it is not \<open>Max retries exceeded\<close>. The aggregator counts it as an error.
\<close>

theorem server_error_exhausts_budget:
  assumes "open_json e p = Content d" and "truthy d" and "0 < R"
    and "\<forall>k. 0 \<le> k \<and> k < R \<longrightarrow> (\<exists>c r b. urlopen_entities e p k = HTTPError c r b \<and> 500 \<le> c)"
    and "urlopen_entities e p (R - 1) = HTTPError code reason body"
  shows "posts (fst (upload_entity e p R)) = nat R
     \<and> sleeps (fst (upload_entity e p R)) = nat (R - 1)
     \<and> snd (upload_entity e p R) =
         (p, False, ''HTTP error: '' @ show_int code @ '' - '' @ reason
            @ (case body of Some b \<Rightarrow> '', Details: '' @ b | None \<Rightarrow> []))
     \<and> snd (snd (snd (upload_entity e p R))) \<noteq> ''Max retries exceeded''
     \<and> error_count (snd (process_result st (snd (upload_entity e p R)))) = error_count st + 1"
proof -
  have ua: "upload_attempts e p d 0 R =
    (concat (replicate (nat (R - 1)) [HttpPost entities_url d, Sleep]) @ [HttpPost entities_url d],
     (p, False, ''HTTP error: '' @ show_int code @ '' - '' @ reason
       @ (case body of Some b \<Rightarrow> '', Details: '' @ b | None \<Rightarrow> [])))"
    using server_errors_exhaust [of 0 R e p code reason body "nat (R - 1)" d] assms(3,4,5)
    by simp
  have u: "upload_entity e p R =
    (FileOpen p # concat (replicate (nat (R - 1)) [HttpPost entities_url d, Sleep])
       @ [HttpPost entities_url d],
     (p, False, ''HTTP error: '' @ show_int code @ '' - '' @ reason
       @ (case body of Some b \<Rightarrow> '', Details: '' @ b | None \<Rightarrow> [])))"
    using assms(1,2) by (simp add: upload_entity_def load_json_file_def ua)
  have cnt: "length (filter is_post (concat (replicate n [HttpPost entities_url d, Sleep]))) = n
       \<and> length (filter (\<lambda>ev. ev = Sleep)
            (concat (replicate n [HttpPost entities_url d, Sleep]))) = n"
    for n by (induction n) simp_all
  have np: "posts (fst (upload_entity e p R)) = nat R"
    using assms(3) by (simp add: u posts_def cnt nat_diff_distrib)
  have ns: "sleeps (fst (upload_entity e p R)) = nat (R - 1)"
    by (simp add: u sleeps_def cnt)
  show ?thesis
    by (simp add: np ns) (simp add: u process_result_failed)
qed

text \<open>C2, amended, on \<open>C.json\<close> with a budget of 3: three requests, two pauses.\<close>

theorem server_error_exhausts_budget_witness:
  "open_json demo_env ''C.json'' = Content (JObj [(''id'', JStr ''C.json'')])
   \<and> truthy (JObj [(''id'', JStr ''C.json'')])
   \<and> (0::int) < 3
   \<and> urlopen_entities demo_env ''C.json'' 0 = HTTPError 503 ''Service Unavailable'' (Some ''busy'')
   \<and> urlopen_entities demo_env ''C.json'' 1 = HTTPError 503 ''Service Unavailable'' (Some ''busy'')
   \<and> urlopen_entities demo_env ''C.json'' (3 - 1)
       = HTTPError 503 ''Service Unavailable'' (Some ''busy'')
   \<and> (500::int) \<le> 503
   \<and> posts (fst (upload_entity demo_env ''C.json'' 3)) = 3
   \<and> sleeps (fst (upload_entity demo_env ''C.json'' 3)) = 2
   \<and> snd (upload_entity demo_env ''C.json'' 3)
       = (''C.json'', False, ''HTTP error: 503 - Service Unavailable, Details: busy'')"
proof -
  have h1: "open_json demo_env ''C.json'' = Content (JObj [(''id'', JStr ''C.json'')])"
    by (simp add: demo_defs)
  have h2: "truthy (JObj [(''id'', JStr ''C.json'')])" by simp
  have h3: "(0::int) < 3" by simp
  have h4: "\<forall>k. 0 \<le> k \<and> k < 3 \<longrightarrow>
        (\<exists>c r b. urlopen_entities demo_env ''C.json'' k = HTTPError c r b \<and> 500 \<le> c)"
    by (simp add: demo_defs)
  have h5: "urlopen_entities demo_env ''C.json'' (3 - 1)
       = HTTPError 503 ''Service Unavailable'' (Some ''busy'')"
    by (simp add: demo_defs)
  have s: "show_int 503 = ''503''"
    by (simp add: show_int_def show_nat.simps digit_char_def)
  have h6: "urlopen_entities demo_env ''C.json'' 0
       = HTTPError 503 ''Service Unavailable'' (Some ''busy'')"
    "urlopen_entities demo_env ''C.json'' 1
       = HTTPError 503 ''Service Unavailable'' (Some ''busy'')"
    by (simp_all add: demo_defs)
  from server_error_exhausts_budget [OF h1 h2 h3 h4 h5, of agg_init] h1 h2 h5 h6 s
  show ?thesis by simp
qed

subsection \<open>C3: a conflict is success\<close>



subsection \<open>C4: another 4xx fails at once\<close>

text \<open>
  C4. The document loads and the budget is at least 1. If the first create-request raises
  \<^verbatim>\<open>HTTPError\<close> with a code from 400 to 499 other than 409, the task fails on that first
  attempt: exactly one request, no pause and no retry, and the aggregator counts an error.
\<close>

theorem client_error_fails_first_attempt:
  assumes "open_json e p = Content d" and "truthy d" and "0 < retries"
    and "urlopen_entities e p 0 = HTTPError code reason body"
    and "400 \<le> code" and "code < 500" and "code \<noteq> 409"
  shows "upload_entity e p retries =
           ([FileOpen p, HttpPost entities_url d],
            (p, False, ''HTTP error: '' @ show_int code @ '' - '' @ reason
               @ (case body of Some b \<Rightarrow> '', Details: '' @ b | None \<Rightarrow> [])))
     \<and> posts (fst (upload_entity e p retries)) = 1
     \<and> sleeps (fst (upload_entity e p retries)) = 0
     \<and> error_count (snd (process_result st (snd (upload_entity e p retries))))
         = error_count st + 1"
proof -
  have u: "upload_entity e p retries =
           ([FileOpen p, HttpPost entities_url d],
            (p, False, ''HTTP error: '' @ show_int code @ '' - '' @ reason
               @ (case body of Some b \<Rightarrow> '', Details: '' @ b | None \<Rightarrow> [])))"
    using assms upload_attempts_rejected [of 0 retries e p code reason body d]
    by (simp add: upload_entity_def load_json_file_def)
  show ?thesis
    by (simp add: u posts_def sleeps_def process_result_failed)
qed

text \<open>C4 on \<open>D.json\<close>, which the broker rejects with 400.\<close>

theorem client_error_fails_first_attempt_witness:
  "open_json demo_env ''D.json'' = Content (JObj [(''id'', JStr ''D.json'')])
   \<and> truthy (JObj [(''id'', JStr ''D.json'')])
   \<and> 0 < MAX_RETRIES
   \<and> urlopen_entities demo_env ''D.json'' 0 = HTTPError 400 ''Bad Request'' None
   \<and> (400::int) \<le> 400 \<and> (400::int) < 500 \<and> (400::int) \<noteq> 409
   \<and> snd (upload_entity demo_env ''D.json'' MAX_RETRIES)
       = (''D.json'', False, ''HTTP error: 400 - Bad Request'')
   \<and> posts (fst (upload_entity demo_env ''D.json'' MAX_RETRIES)) = 1
   \<and> sleeps (fst (upload_entity demo_env ''D.json'' MAX_RETRIES)) = 0"
proof -
  have h1: "open_json demo_env ''D.json'' = Content (JObj [(''id'', JStr ''D.json'')])"
    by (simp add: demo_defs)
  have h2: "truthy (JObj [(''id'', JStr ''D.json'')])" by simp
  have h3: "0 < MAX_RETRIES" by (simp add: MAX_RETRIES_def)
  have h4: "urlopen_entities demo_env ''D.json'' 0 = HTTPError 400 ''Bad Request'' None"
    by (simp add: demo_defs)
  have h5: "(400::int) \<le> 400" and h6: "(400::int) < 500" and h7: "(400::int) \<noteq> 409"
    by simp_all
  have s: "show_int 400 = ''400''"
    by (simp add: show_int_def show_nat.simps digit_char_def)
  from client_error_fails_first_attempt [OF h1 h2 h3 h4 h5 h6 h7, of agg_init] h1 h2 h3 h4 s
  show ?thesis
    by (simp add: posts_def sleeps_def)
qed

subsection \<open>C5: a file that does not load\<close>

text \<open>
  C5. If opening or parsing the file raises, \<^verbatim>\<open>load_json_file\<close> logs the error and returns
  \<^verbatim>\<open>None\<close>, and the task ends as a failure with the reason \<open>Failed to load entity data\<close>:
  the file is opened once, no create-request is issued, nothing is retried, and the
  aggregator counts an error. This holds for every retry budget.
\<close>

theorem load_error_is_permanent:
  assumes "open_json e p = ReadError msg"
  shows "upload_entity e p retries =
           ([FileOpen p, LogError (''Error reading file '' @ p @ '': '' @ msg)],
            (p, False, ''Failed to load entity data''))
     \<and> loads (fst (upload_entity e p retries)) = 1
     \<and> posts (fst (upload_entity e p retries)) = 0
     \<and> sleeps (fst (upload_entity e p retries)) = 0
     \<and> error_count (snd (process_result st (snd (upload_entity e p retries))))
         = error_count st + 1"
proof -
  have u: "upload_entity e p retries =
           ([FileOpen p, LogError (''Error reading file '' @ p @ '': '' @ msg)],
            (p, False, ''Failed to load entity data''))"
    using assms by (simp add: upload_entity_def load_json_file_def)
  show ?thesis
    by (simp add: u posts_def loads_def sleeps_def process_result_failed)
qed

text \<open>C5 on \<open>bad.json\<close>, which is not valid JSON.\<close>

theorem load_error_is_permanent_witness:
  "open_json demo_env ''bad.json'' = ReadError ''Expecting value: line 1 column 1 (char 0)''
   \<and> snd (upload_entity demo_env ''bad.json'' MAX_RETRIES)
       = (''bad.json'', False, ''Failed to load entity data'')
   \<and> loads (fst (upload_entity demo_env ''bad.json'' MAX_RETRIES)) = 1
   \<and> posts (fst (upload_entity demo_env ''bad.json'' MAX_RETRIES)) = 0"
proof -
  have h: "open_json demo_env ''bad.json''
      = ReadError ''Expecting value: line 1 column 1 (char 0)''"
    by (simp add: demo_defs)
  from load_error_is_permanent [OF h, of MAX_RETRIES agg_init] h
  show ?thesis by (simp add: posts_def loads_def)
qed

subsection \<open>C6: the broker is unreachable\<close>

text \<open>
  C6. If \<^verbatim>\<open>check_orion_availability\<close> returns \<^verbatim>\<open>False\<close>, \<^verbatim>\<open>main\<close> logs the error and calls
  \<^verbatim>\<open>sys.exit(1)\<close>: the run consists of the probe and two log lines, no file is opened and
  no create-request is issued, whatever the arguments and the files are.
\<close>

theorem unreachable_aborts_run:
  assumes "\<not> snd (check_orion_availability e)"
  shows "snd (main e a completed) = SysExit 1
     \<and> fst (main e a completed) = fst (check_orion_availability e)
          @ [LogError ''Orion-LD is not available. Please make sure it is running.'']
     \<and> posts (fst (main e a completed)) = 0
     \<and> loads (fst (main e a completed)) = 0"
proof -
  obtain evs0 where c: "check_orion_availability e = (evs0, False)"
    using assms by (cases "check_orion_availability e") simp
  have "posts evs0 = 0 \<and> loads evs0 = 0"
    using check_orion_availability_events [of e] c by simp
  then show ?thesis
    by (simp add: main_def c posts_def loads_def)
qed

text \<open>C6 on the example world with the broker down.\<close>

theorem unreachable_aborts_run_witness:
  "\<not> snd (check_orion_availability down_env)
   \<and> snd (main down_env demo_args [''C.json'', ''A.json'', ''B.json'']) = SysExit 1
   \<and> posts (fst (main down_env demo_args [''C.json'', ''A.json'', ''B.json''])) = 0"
proof -
  have h: "\<not> snd (check_orion_availability down_env)"
    by (simp add: check_orion_availability_def demo_defs Let_def)
  from unreachable_aborts_run [OF h, of demo_args "[''C.json'', ''A.json'', ''B.json'']"] h
  show ?thesis by blast
qed

subsection \<open>C7: the rate of the summary\<close>

text \<open>
  C7. The division by the elapsed time is not guarded. In a store that holds the single
  file \<open>bad.json\<close> (no request and no pause is made for it) and with two equal readings of
  the clock, the elapsed time is zero and \<^verbatim>\<open>main\<close> ends with \<^verbatim>\<open>ZeroDivisionError\<close> after
  the line \<open>Time elapsed\<close>, where the claim wants the rate left out.
\<close>

theorem zero_elapsed_raises:
  "end_time quick_env - start_time quick_env = 0
   \<and> snd (main quick_env demo_args [''bad.json'']) = Raised ZeroDivisionError"
  by (simp add: main_def check_orion_availability_def get_json_files_def
      parallel_upload_def process_result_def main_summary_def agg_init_def
      upload_entity_def load_json_file_def demo_defs Let_def)

subsection \<open>C8: how often the document is read\<close>

text \<open>
  C8 as stated fails. The task for \<open>C.json\<close> makes two attempts and opens the file once:
  \<^verbatim>\<open>load_json_file\<close> is called before the loop, not in it.
\<close>

theorem load_per_attempt_counterexample:
  "posts (fst (upload_entity demo_env ''C.json'' MAX_RETRIES)) = 2
   \<and> loads (fst (upload_entity demo_env ''C.json'' MAX_RETRIES)) = 1"
  by (simp add: demo_defs run_defs)

text \<open>
  C8, amended. Every task reads its source file exactly once, before the first attempt,
  however many attempts it makes: the first event of the task is the opening of its file,
  no later event opens a file, and every create-request that follows posts the value that
  \<^verbatim>\<open>load_json_file\<close> returned for the file.
\<close>

theorem document_loaded_once:
  "\<exists>rest. fst (upload_entity e p retries) = FileOpen p # rest
     \<and> filter is_open rest = []
     \<and> set (filter is_post rest) \<subseteq> {HttpPost entities_url (snd (load_json_file e p))}
     \<and> loads (fst (upload_entity e p retries)) = 1"
  using upload_entity_events [of e p retries] by (auto simp: loads_def)

text \<open>C8, amended, on \<open>C.json\<close> with a budget of 3: one opening, then three requests.\<close>

theorem document_loaded_once_witness:
  "fst (upload_entity demo_env ''C.json'' 3)
     = FileOpen ''C.json''
       # [HttpPost entities_url (JObj [(''id'', JStr ''C.json'')]), Sleep,
          HttpPost entities_url (JObj [(''id'', JStr ''C.json'')]), Sleep,
          HttpPost entities_url (JObj [(''id'', JStr ''C.json'')])]
   \<and> snd (load_json_file demo_env ''C.json'') = JObj [(''id'', JStr ''C.json'')]
   \<and> loads (fst (upload_entity demo_env ''C.json'' 3)) = 1
   \<and> posts (fst (upload_entity demo_env ''C.json'' 3)) = 3"
  using document_loaded_once [of demo_env "''C.json''" 3]
  by (simp add: demo_defs run_defs)

subsection \<open>C9: a document that is valid JSON but falsy\<close>

text \<open>
  C9. If the file parses to a value that Python takes for false, the test
  \<^verbatim>\<open>if not entity_data\<close> ends the task as a failure with the reason
  \<open>Failed to load entity data\<close>: no create-request is issued and the aggregator counts an
  error.
\<close>

theorem falsy_document_is_load_failure:
  assumes "open_json e p = Content v" and "\<not> truthy v"
  shows "upload_entity e p retries = ([FileOpen p], (p, False, ''Failed to load entity data''))
     \<and> posts (fst (upload_entity e p retries)) = 0
     \<and> error_count (snd (process_result st (snd (upload_entity e p retries))))
         = error_count st + 1"
proof -
  have u: "upload_entity e p retries = ([FileOpen p], (p, False, ''Failed to load entity data''))"
    using assms by (simp add: upload_entity_def load_json_file_def)
  show ?thesis
    by (simp add: u posts_def process_result_failed)
qed

text \<open>
  C9 on the six values of the claim: the empty object, the empty array, 0, false, null and
  the empty string.
\<close>

theorem falsy_document_is_load_failure_witness:
  "(\<not> truthy (JObj []) \<and> \<not> truthy (JArr []) \<and> \<not> truthy (JInt 0)
      \<and> \<not> truthy (JBool False) \<and> \<not> truthy JNull \<and> \<not> truthy (JStr []))
   \<and> snd (upload_entity (demo_env\<lparr>open_json := literal_store (JObj [])\<rparr>) ''x.json'' 2)
       = (''x.json'', False, ''Failed to load entity data'')
   \<and> posts (fst (upload_entity (demo_env\<lparr>open_json := literal_store (JObj [])\<rparr>) ''x.json'' 2)) = 0
   \<and> posts (fst (upload_entity (demo_env\<lparr>open_json := literal_store (JArr [])\<rparr>) ''x.json'' 2)) = 0
   \<and> posts (fst (upload_entity (demo_env\<lparr>open_json := literal_store (JInt 0)\<rparr>) ''x.json'' 2)) = 0
   \<and> posts (fst (upload_entity (demo_env\<lparr>open_json := literal_store (JBool False)\<rparr>) ''x.json'' 2)) = 0
   \<and> posts (fst (upload_entity (demo_env\<lparr>open_json := literal_store JNull\<rparr>) ''x.json'' 2)) = 0
   \<and> posts (fst (upload_entity (demo_env\<lparr>open_json := literal_store (JStr [])\<rparr>) ''x.json'' 2)) = 0"
proof -
  have o: "open_json (demo_env\<lparr>open_json := literal_store v\<rparr>) ''x.json'' = Content v" for v
    by (simp add: literal_store_def)
  have f: "\<not> truthy (JObj [])" "\<not> truthy (JArr [])" "\<not> truthy (JInt 0)"
    "\<not> truthy (JBool False)" "\<not> truthy JNull" "\<not> truthy (JStr [])"
    by simp_all
  note t = falsy_document_is_load_failure [OF o, where retries = 2 and st = agg_init]
  from t [OF f(1)] t [OF f(2)] t [OF f(3)] t [OF f(4)] t [OF f(5)] t [OF f(6)] f
  show ?thesis by (simp add: posts_def)
qed

subsection \<open>C10: a response with a status other than 201\<close>

text \<open>
  C10. The document loads. Attempt \<open>k\<close> of the task is within the budget and is reached:
  every attempt before it met a server error or another exception, and was retried. If the
  create-request of attempt \<open>k\<close> returns a response whose status is not 201, the task ends
  there as a failure with the reason \<open>Unexpected status code: <status>\<close>: that request is
  the last event, no pause follows and nothing is retried, and the aggregator counts an
  error. This holds for the first attempt (\<open>k = 0\<close>) and for every later one. And in any
  world, a task that returns \<open>Created\<close> as a success has received a response with status
  201.
\<close>

theorem unexpected_status_fails:
  assumes "open_json e p = Content d" and "truthy d"
    and "0 \<le> k" and "k < retries"
    and "\<forall>j. 0 \<le> j \<and> j < k \<longrightarrow>
           (\<exists>c r b. urlopen_entities e p j = HTTPError c r b \<and> 500 \<le> c)
           \<or> (\<exists>m. urlopen_entities e p j = OtherException m)"
    and "urlopen_entities e p k = Response s" and "s \<noteq> 201"
  shows "upload_entity e p retries =
           (FileOpen p # concat (replicate (nat k) [HttpPost entities_url d, Sleep])
              @ [HttpPost entities_url d],
            (p, False, ''Unexpected status code: '' @ show_int s))
     \<and> posts (fst (upload_entity e p retries)) = nat k + 1
     \<and> sleeps (fst (upload_entity e p retries)) = nat k
     \<and> error_count (snd (process_result st (snd (upload_entity e p retries))))
         = error_count st + 1
     \<and> (snd (upload_entity e' p' retries') = (p', True, ''Created'') \<longrightarrow>
          (\<exists>k. 0 \<le> k \<and> k < retries' \<and> urlopen_entities e' p' k = Response 201))"
proof -
  have at_k: "upload_attempts e p d k retries =
      ([HttpPost entities_url d], (p, False, ''Unexpected status code: '' @ show_int s))"
    using upload_attempts_response [of k retries e p s d] assms(4,6,7) by simp
  have ua: "upload_attempts e p d 0 retries =
      (concat (replicate (nat k) [HttpPost entities_url d, Sleep]) @ [HttpPost entities_url d],
       (p, False, ''Unexpected status code: '' @ show_int s))"
    using upload_attempts_retry_prefix [of 0 k e p retries "nat k" d] assms(3,4,5) at_k
    by simp
  have u: "upload_entity e p retries =
           (FileOpen p # concat (replicate (nat k) [HttpPost entities_url d, Sleep])
              @ [HttpPost entities_url d],
            (p, False, ''Unexpected status code: '' @ show_int s))"
    using assms(1,2) by (simp add: upload_entity_def load_json_file_def ua)
  have cnt: "length (filter is_post (concat (replicate n [HttpPost entities_url d, Sleep]))) = n
       \<and> length (filter (\<lambda>ev. ev = Sleep)
            (concat (replicate n [HttpPost entities_url d, Sleep]))) = n"
    for n by (induction n) simp_all
  have np: "posts (fst (upload_entity e p retries)) = nat k + 1"
    by (simp add: u posts_def cnt)
  have ns: "sleeps (fst (upload_entity e p retries)) = nat k"
    by (simp add: u sleeps_def cnt)
  have c: "snd (upload_entity e' p' retries') = (p', True, ''Created'') \<longrightarrow>
          (\<exists>k. 0 \<le> k \<and> k < retries' \<and> urlopen_entities e' p' k = Response 201)"
  proof
    assume a: "snd (upload_entity e' p' retries') = (p', True, ''Created'')"
    obtain evs0 d' where l: "load_json_file e' p' = (evs0, d')"
      by (cases "load_json_file e' p'")
    obtain evs r where ua': "upload_attempts e' p' d' 0 retries' = (evs, r)"
      by (cases "upload_attempts e' p' d' 0 retries'")
    from a l ua' have "r = (p', True, ''Created'')"
      by (simp add: upload_entity_def split: if_splits)
    with ua' created_only_201 [of e' p' d' 0 retries' evs p']
    show "\<exists>k. 0 \<le> k \<and> k < retries' \<and> urlopen_entities e' p' k = Response 201"
      by simp
  qed
  have ec: "error_count (snd (process_result st (snd (upload_entity e p retries))))
         = error_count st + 1"
    by (simp add: u process_result_failed)
  from u np ns ec c show ?thesis by blast
qed

text \<open>
  C10 on \<open>F.json\<close> in the flaky world, where the first attempt meets a 500 and the second
  gets the status 204; on \<open>E.json\<close>, for which the broker answers 204 at once; and on
  \<open>A.json\<close>, which is created after a 201.
\<close>

theorem unexpected_status_fails_witness:
  "open_json flaky_env ''F.json'' = Content (JObj [(''id'', JStr ''F.json'')])
   \<and> truthy (JObj [(''id'', JStr ''F.json'')])
   \<and> (0::int) \<le> 1 \<and> 1 < MAX_RETRIES
   \<and> urlopen_entities flaky_env ''F.json'' 0 = HTTPError 500 ''Internal Server Error'' None
   \<and> (500::int) \<le> 500
   \<and> urlopen_entities flaky_env ''F.json'' 1 = Response 204
   \<and> (204::int) \<noteq> 201
   \<and> snd (upload_entity flaky_env ''F.json'' MAX_RETRIES)
       = (''F.json'', False, ''Unexpected status code: 204'')
   \<and> posts (fst (upload_entity flaky_env ''F.json'' MAX_RETRIES)) = 2
   \<and> sleeps (fst (upload_entity flaky_env ''F.json'' MAX_RETRIES)) = 1
   \<and> urlopen_entities demo_env ''E.json'' 0 = Response 204
   \<and> snd (upload_entity demo_env ''E.json'' MAX_RETRIES)
       = (''E.json'', False, ''Unexpected status code: 204'')
   \<and> posts (fst (upload_entity demo_env ''E.json'' MAX_RETRIES)) = 1
   \<and> sleeps (fst (upload_entity demo_env ''E.json'' MAX_RETRIES)) = 0
   \<and> snd (upload_entity demo_env ''A.json'' MAX_RETRIES) = (''A.json'', True, ''Created'')
   \<and> (\<exists>k. 0 \<le> k \<and> k < MAX_RETRIES \<and> urlopen_entities demo_env ''A.json'' k = Response 201)"
proof -
  have f1: "open_json flaky_env ''F.json'' = Content (JObj [(''id'', JStr ''F.json'')])"
    by (simp add: flaky_env_def demo_defs)
  have f2: "truthy (JObj [(''id'', JStr ''F.json'')])" by simp
  have f3: "(0::int) \<le> 1" by simp
  have f4: "1 < MAX_RETRIES" by (simp add: MAX_RETRIES_def)
  have f0: "urlopen_entities flaky_env ''F.json'' 0
      = HTTPError 500 ''Internal Server Error'' None"
    by (simp add: flaky_env_def flaky_sink_def demo_defs)
  have f5: "\<forall>j. 0 \<le> j \<and> j < 1 \<longrightarrow>
           (\<exists>c r b. urlopen_entities flaky_env ''F.json'' j = HTTPError c r b \<and> 500 \<le> c)
           \<or> (\<exists>m. urlopen_entities flaky_env ''F.json'' j = OtherException m)"
  proof (intro allI impI)
    fix j :: int
    assume "0 \<le> j \<and> j < 1"
    then have "j = 0" by simp
    with f0 show "(\<exists>c r b. urlopen_entities flaky_env ''F.json'' j = HTTPError c r b \<and> 500 \<le> c)
           \<or> (\<exists>m. urlopen_entities flaky_env ''F.json'' j = OtherException m)"
      by simp
  qed
  have f6: "urlopen_entities flaky_env ''F.json'' 1 = Response 204"
    by (simp add: flaky_env_def flaky_sink_def demo_defs)
  have h1: "open_json demo_env ''E.json'' = Content (JObj [(''id'', JStr ''E.json'')])"
    by (simp add: demo_defs)
  have h2: "truthy (JObj [(''id'', JStr ''E.json'')])" by simp
  have h3: "(0::int) \<le> 0" by simp
  have h4: "0 < MAX_RETRIES" by (simp add: MAX_RETRIES_def)
  have h5: "\<forall>j. 0 \<le> j \<and> j < 0 \<longrightarrow>
           (\<exists>c r b. urlopen_entities demo_env ''E.json'' j = HTTPError c r b \<and> 500 \<le> c)
           \<or> (\<exists>m. urlopen_entities demo_env ''E.json'' j = OtherException m)"
    by auto
  have h6: "urlopen_entities demo_env ''E.json'' 0 = Response 204"
    by (simp add: demo_defs)
  have ne: "(204::int) \<noteq> 201" by simp
  have s: "show_int 204 = ''204''"
    by (simp add: show_int_def show_nat.simps digit_char_def)
  have a: "snd (upload_entity demo_env ''A.json'' MAX_RETRIES) = (''A.json'', True, ''Created'')"
    by (simp add: demo_defs run_defs)
  note tf = unexpected_status_fails [OF f1 f2 f3 f4 f5 f6 ne,
      where st = agg_init and e' = demo_env and p' = "''A.json''" and retries' = MAX_RETRIES]
  note te = unexpected_status_fails [OF h1 h2 h3 h4 h5 h6 ne,
      where st = agg_init and e' = demo_env and p' = "''A.json''" and retries' = MAX_RETRIES]
  from tf a have k: "\<exists>k. 0 \<le> k \<and> k < MAX_RETRIES \<and> urlopen_entities demo_env ''A.json'' k = Response 201"
    by blast
  from tf have rf: "snd (upload_entity flaky_env ''F.json'' MAX_RETRIES)
       = (''F.json'', False, ''Unexpected status code: 204'')"
    and nf: "posts (fst (upload_entity flaky_env ''F.json'' MAX_RETRIES)) = 2"
      "sleeps (fst (upload_entity flaky_env ''F.json'' MAX_RETRIES)) = 1"
    using s by (simp_all add: posts_def sleeps_def)
  from te have re: "snd (upload_entity demo_env ''E.json'' MAX_RETRIES)
       = (''E.json'', False, ''Unexpected status code: 204'')"
    and n: "posts (fst (upload_entity demo_env ''E.json'' MAX_RETRIES)) = 1"
      "sleeps (fst (upload_entity demo_env ''E.json'' MAX_RETRIES)) = 0"
    using s by (simp_all add: posts_def sleeps_def)
  have five: "(500::int) \<le> 500" by simp
  from f1 f2 f3 f4 f0 five f6 ne rf nf h6 re n a k show ?thesis by blast
qed

end
